theory Spec2Isabelle
  imports Main
begin

section \<open>The CSI volume manager of client/pluginmanager/csimanager/volume.go\<close>

text \<open>
  The theory embeds \<^verbatim>\<open>volume.go\<close>: the staging path, \<^verbatim>\<open>ensureStagingDir\<close>,
  \<^verbatim>\<open>stageVolume\<close>, \<^verbatim>\<open>MountVolume\<close> and \<^verbatim>\<open>UnmountVolume\<close>.
  Everything the Go code does to the outside (creating a directory, probing a mount point, the
  plugin's NodeStageVolume RPC) is a call to an oracle, and every such call is appended to a
  trace, so that "the plugin is not invoked" is a statement about the trace. An oracle answers
  as a function of the calls made so far, which lets the host and the plugin change between
  calls. Logging and the \<^verbatim>\<open>context.Context\<close> argument have no influence on
  the control flow of this file and are left out. A volume is the struct a non-nil
  \<^verbatim>\<open>*structs.CSIVolume\<close> points to.
\<close>

subsection \<open>Go values\<close>

text \<open>
  A Go \<^verbatim>\<open>error\<close> value: its \<^verbatim>\<open>Error()\<close> message, and whether
  \<^verbatim>\<open>os.IsExist\<close> holds of it. \<^verbatim>\<open>fmt.Errorf\<close>, used here with the verbs
  \<^verbatim>\<open>%s\<close> and \<^verbatim>\<open>%v\<close> only, builds a fresh error from the formatted message; it
  wraps nothing, so \<^verbatim>\<open>os.IsExist\<close> is false of it. A nil error is \<open>None\<close>.
\<close>

datatype error = GoError (Error: string) (os_IsExist: bool)

definition Errorf :: "string \<Rightarrow> error" where
  "Errorf msg = GoError msg False"

text \<open>\<^verbatim>\<open>time.Duration\<close> counts nanoseconds.\<close>

type_synonym Duration = int

definition Millisecond :: Duration where
  "Millisecond = 1000000"

definition Minute :: Duration where
  "Minute = 60 * (1000 * Millisecond)"

definition DefaultMountActionTimeout :: Duration where
  "DefaultMountActionTimeout = 2 * Minute"

definition StagingDirName :: string where
  "StagingDirName = ''staging''"

definition AllocSpecificDirName :: string where
  "AllocSpecificDirName = ''per-alloc''"

subsection \<open>The wire vocabulary of plugins/csi and the retry options\<close>

text \<open>
  The enumerations of package \<^verbatim>\<open>csi\<close> that \<^verbatim>\<open>stageVolume\<close> writes, and the
  \<^verbatim>\<open>grpc_retry\<close> call options it passes. \<^verbatim>\<open>VolumeMountOptions\<close> is passed as
  an empty struct literal.
\<close>

datatype VolumeAccessType = VolumeAccessTypeBlock | VolumeAccessTypeMount

datatype VolumeAccessMode =
    VolumeAccessModeSingleNodeReaderOnly
  | VolumeAccessModeSingleNodeWriter
  | VolumeAccessModeMultiNodeReaderOnly
  | VolumeAccessModeMultiNodeSingleWriter
  | VolumeAccessModeMultiNodeMultiWriter

datatype VolumeMountOptions = EmptyVolumeMountOptions

record VolumeCapability =
  AccessType :: VolumeAccessType
  WireAccessMode :: VolumeAccessMode
  MountOptions :: VolumeMountOptions

datatype BackoffFunc = BackoffExponential Duration

datatype CallOption =
    WithPerRetryTimeout Duration
  | WithMax nat
  | WithBackoff BackoffFunc

subsection \<open>The domain vocabulary of nomad/structs\<close>

text \<open>
  \<^verbatim>\<open>CSIVolumeAttachmentMode\<close> and \<^verbatim>\<open>CSIVolumeAccessMode\<close> are string types, so
  a volume can carry any string. The seven constants the two switches compare with are
  declared in \<^verbatim>\<open>nomad/structs\<close>; their spellings are parameters of the model.
\<close>

record CSIVolume =
  ID :: string
  AttachmentMode :: string
  AccessMode :: string

record structs =
  CSIVolumeAttachmentModeBlockDevice :: string
  CSIVolumeAttachmentModeFilesystem :: string
  CSIVolumeAccessModeSingleNodeReader :: string
  CSIVolumeAccessModeSingleNodeWriter :: string
  CSIVolumeAccessModeMultiNodeReader :: string
  CSIVolumeAccessModeMultiNodeSingleWriter :: string
  CSIVolumeAccessModeMultiNodeMultiWriter :: string

text \<open>
  The Go compiler rejects a switch with two equal constant cases, so the constants of each
  switch are pairwise different.
\<close>

definition attachment_modes :: "structs \<Rightarrow> string list" where
  "attachment_modes c =
     [CSIVolumeAttachmentModeBlockDevice c, CSIVolumeAttachmentModeFilesystem c]"

definition access_modes :: "structs \<Rightarrow> string list" where
  "access_modes c =
     [CSIVolumeAccessModeSingleNodeReader c, CSIVolumeAccessModeSingleNodeWriter c,
      CSIVolumeAccessModeMultiNodeReader c, CSIVolumeAccessModeMultiNodeSingleWriter c,
      CSIVolumeAccessModeMultiNodeMultiWriter c]"

definition wellformed_structs :: "structs \<Rightarrow> bool" where
  "wellformed_structs c = (distinct (attachment_modes c) \<and> distinct (access_modes c))"

subsection \<open>External calls\<close>

text \<open>
  One event per call that leaves the process: \<^verbatim>\<open>os.MkdirAll(path, perm)\<close>,
  \<^verbatim>\<open>mount.New().IsNotAMountPoint(path)\<close> and the plugin's
  \<^verbatim>\<open>NodeStageVolume(ctx, volumeID, publishContext, stagingPath, capability, opts...)\<close>.
\<close>

datatype event =
    MkdirAll_call string nat
  | IsNotAMountPoint_call string
  | NodeStageVolume_call string "(string \<times> string) list option" string VolumeCapability
      "CallOption list"

fun is_NodeStageVolume_call :: "event \<Rightarrow> bool" where
  "is_NodeStageVolume_call (NodeStageVolume_call i pc p c os) = True"
| "is_NodeStageVolume_call (MkdirAll_call p m) = False"
| "is_NodeStageVolume_call (IsNotAMountPoint_call p) = False"

fun is_filesystem_call :: "event \<Rightarrow> bool" where
  "is_filesystem_call (MkdirAll_call p m) = True"
| "is_filesystem_call (IsNotAMountPoint_call p) = True"
| "is_filesystem_call (NodeStageVolume_call i pc p c os) = False"

record host =
  modes :: structs
  os_MkdirAll :: "event list \<Rightarrow> string \<Rightarrow> nat \<Rightarrow> error option"
  IsNotAMountPoint :: "event list \<Rightarrow> string \<Rightarrow> bool \<times> error option"

record CSIPlugin =
  NodeStageVolume :: "event list \<Rightarrow> string \<Rightarrow> (string \<times> string) list option \<Rightarrow> string \<Rightarrow>
     VolumeCapability \<Rightarrow> CallOption list \<Rightarrow> error option"

subsection \<open>path/filepath\<close>

text \<open>
  \<^verbatim>\<open>filepath.Join\<close> of the Go standard library on Unix: the elements from the first
  non-empty one on are joined with a slash and the result is cleaned. \<^verbatim>\<open>Clean\<close>
  drops empty and \<^verbatim>\<open>.\<close> elements, lets \<^verbatim>\<open>..\<close> remove the element before it
  (at the root it is dropped, at the start of a relative path it is kept) and turns the empty
  result into \<^verbatim>\<open>.\<close>.
\<close>

fun split_slash :: "string \<Rightarrow> string list" where
  "split_slash [] = [[]]"
| "split_slash (x # xs) =
     (if x = CHR ''/'' then [] # split_slash xs
      else (case split_slash xs of [] \<Rightarrow> [[x]] | w # ws \<Rightarrow> (x # w) # ws))"

fun join_slash :: "string list \<Rightarrow> string" where
  "join_slash [] = []"
| "join_slash [e] = e"
| "join_slash (e # es) = e @ CHR ''/'' # join_slash es"

text \<open>The elements kept so far are a stack, the last one first.\<close>

definition clean_elem :: "bool \<Rightarrow> string list \<Rightarrow> string \<Rightarrow> string list" where
  "clean_elem rooted kept el =
     (if el = [] \<or> el = ''.'' then kept
      else if el = ''..'' then
        (case kept of
           [] \<Rightarrow> if rooted then [] else [''..'']
         | k # ks \<Rightarrow> if k = ''..'' then ''..'' # kept else ks)
      else el # kept)"

definition Clean :: "string \<Rightarrow> string" where
  "Clean path =
     (case path of
        [] \<Rightarrow> ''.''
      | c # cs \<Rightarrow>
          (let rooted = (c = CHR ''/'');
               kept = foldl (clean_elem rooted) [] (split_slash path)
           in if rooted then CHR ''/'' # join_slash (rev kept)
              else if kept = [] then ''.''
              else join_slash (rev kept)))"

definition filepath_Join :: "string list \<Rightarrow> string" where
  "filepath_Join elem =
     (case dropWhile (\<lambda>e. e = []) elem of
        [] \<Rightarrow> []
      | e # es \<Rightarrow> Clean (join_slash (e # es)))"

subsection \<open>The volume manager\<close>

text \<open>
  Modelled from the spec: the values of the \<^verbatim>\<open>volumes\<close> map. The source declares
  \<^verbatim>\<open>map[string]interface{}\<close> and never stores a value, so the value type is missing;
  section 3 of the spec describes a usage record with a staging path, a reference count and
  a state.
\<close>

datatype UsageState = Unstaged | Staged | Published | Unpublished

record UsageRecord =
  usageStagingPath :: string
  usageReferenceCount :: nat
  usageState :: UsageState

record volumeManager =
  plugin :: CSIPlugin
  volumes :: "string \<rightharpoonup> UsageRecord"
  mountRoot :: string
  requiresStaging :: bool

definition newVolumeManager :: "CSIPlugin \<Rightarrow> string \<Rightarrow> bool \<Rightarrow> volumeManager" where
  "newVolumeManager plugin' rootDir requiresStaging' =
     \<lparr>plugin = plugin', volumes = Map.empty, mountRoot = rootDir,
      requiresStaging = requiresStaging'\<rparr>"

text \<open>
  The state a method call works on: the manager its receiver points to, and the external
  calls made so far.
\<close>

record state =
  vm :: volumeManager
  trace :: "event list"

definition stagingDirForVolume :: "volumeManager \<Rightarrow> CSIVolume \<Rightarrow> string" where
  "stagingDirForVolume v vol =
     filepath_Join [mountRoot v, StagingDirName, ID vol, ''todo-provide-usage-options'']"

text \<open>
  Permission \<^verbatim>\<open>0700\<close> is 448. The inner case is the condition
  \<^verbatim>\<open>err != nil && !os.IsExist(err)\<close>: it yields the error that makes
  \<^verbatim>\<open>ensureStagingDir\<close> return, or \<open>None\<close> when the function goes on to the probe.
\<close>

definition ensureStagingDir ::
  "host \<Rightarrow> CSIVolume \<Rightarrow> state \<Rightarrow> (bool \<times> string \<times> error option) \<times> state" where
  "ensureStagingDir h vol s =
     (let stagingPath = stagingDirForVolume (vm s) vol;
          mkdirErr = os_MkdirAll h (trace s) stagingPath 448;
          s1 = s\<lparr>trace := trace s @ [MkdirAll_call stagingPath 448]\<rparr>
      in case (case mkdirErr of None \<Rightarrow> None
               | Some err \<Rightarrow> if \<not> os_IsExist err then Some err else None) of
           Some err \<Rightarrow>
             ((False, [], Some (Errorf (''failed to create staging directory for volume (''
                 @ ID vol @ ''): '' @ Error err))), s1)
         | None \<Rightarrow>
             (let (isNotMount, probeErr) = IsNotAMountPoint h (trace s1) stagingPath;
                  s2 = s1\<lparr>trace := trace s1 @ [IsNotAMountPoint_call stagingPath]\<rparr>
              in case probeErr of
                   Some err \<Rightarrow>
                     ((False, [], Some (Errorf (''mount point detection failed for volume (''
                         @ ID vol @ ''): '' @ Error err))), s2)
                 | None \<Rightarrow> ((\<not> isNotMount, stagingPath, None), s2)))"

text \<open>The three retry options of the NodeStageVolume call.\<close>

definition stage_CallOptions :: "CallOption list" where
  "stage_CallOptions =
     [WithPerRetryTimeout DefaultMountActionTimeout, WithMax 3,
      WithBackoff (BackoffExponential (100 * Millisecond))]"

text \<open>
  The two switch statements of \<^verbatim>\<open>stageVolume\<close>, in the order of their cases.
  Each yields the value it assigns, or the error its default branch returns from
  \<^verbatim>\<open>stageVolume\<close>.
\<close>

definition accessType_switch :: "structs \<Rightarrow> CSIVolume \<Rightarrow> error + VolumeAccessType" where
  "accessType_switch c vol =
     (if AttachmentMode vol = CSIVolumeAttachmentModeBlockDevice c
        then Inr VolumeAccessTypeBlock
      else if AttachmentMode vol = CSIVolumeAttachmentModeFilesystem c
        then Inr VolumeAccessTypeMount
      else Inl (Errorf (''Unknown volume attachment mode: '' @ AttachmentMode vol)))"

definition accessMode_switch :: "structs \<Rightarrow> CSIVolume \<Rightarrow> error + VolumeAccessMode" where
  "accessMode_switch c vol =
     (if AccessMode vol = CSIVolumeAccessModeSingleNodeReader c
        then Inr VolumeAccessModeSingleNodeReaderOnly
      else if AccessMode vol = CSIVolumeAccessModeSingleNodeWriter c
        then Inr VolumeAccessModeSingleNodeWriter
      else if AccessMode vol = CSIVolumeAccessModeMultiNodeMultiWriter c
        then Inr VolumeAccessModeMultiNodeMultiWriter
      else if AccessMode vol = CSIVolumeAccessModeMultiNodeSingleWriter c
        then Inr VolumeAccessModeMultiNodeSingleWriter
      else if AccessMode vol = CSIVolumeAccessModeMultiNodeReader c
        then Inr VolumeAccessModeMultiNodeReaderOnly
      else Inl (Errorf (''Unknown volume access mode: '' @ AccessMode vol)))"

definition stageVolume :: "host \<Rightarrow> CSIVolume \<Rightarrow> state \<Rightarrow> error option \<times> state" where
  "stageVolume h vol s =
     (case ensureStagingDir h vol s of
        ((existingMount, stagingPath, Some err), s1) \<Rightarrow> (Some err, s1)
      | ((existingMount, stagingPath, None), s1) \<Rightarrow>
          if existingMount then (None, s1)
          else
            (case accessType_switch (modes h) vol of
               Inl err \<Rightarrow> (Some err, s1)
             | Inr accessType \<Rightarrow>
                 (case accessMode_switch (modes h) vol of
                    Inl err \<Rightarrow> (Some err, s1)
                  | Inr accessMode \<Rightarrow>
                      (let capability = \<lparr>AccessType = accessType, WireAccessMode = accessMode,
                                         MountOptions = EmptyVolumeMountOptions\<rparr>
                       in (NodeStageVolume (plugin (vm s1)) (trace s1) (ID vol) None stagingPath
                             capability stage_CallOptions,
                           s1\<lparr>trace := trace s1 @ [NodeStageVolume_call (ID vol) None
                                 stagingPath capability stage_CallOptions]\<rparr>)))))"

text \<open>
  \<^verbatim>\<open>MountInfo\<close> is declared elsewhere in the package; \<^verbatim>\<open>MountVolume\<close> only ever
  returns the nil pointer, \<open>None\<close>. The allocation is never inspected.
\<close>

datatype MountInfo = MountInfo

definition MountVolume ::
  "host \<Rightarrow> CSIVolume \<Rightarrow> 'alloc \<Rightarrow> state \<Rightarrow> (MountInfo option \<times> error option) \<times> state" where
  "MountVolume h vol alloc s =
     (if requiresStaging (vm s) then
        (case stageVolume h vol s of
           (Some err, s1) \<Rightarrow> ((None, Some err), s1)
         | (None, s1) \<Rightarrow> ((None, Some (Errorf ''Unimplemented'')), s1))
      else ((None, Some (Errorf ''Unimplemented'')), s))"

definition UnmountVolume :: "host \<Rightarrow> CSIVolume \<Rightarrow> 'alloc \<Rightarrow> state \<Rightarrow> error option \<times> state" where
  "UnmountVolume h vol alloc s = (Some (Errorf ''Unimplemented''), s)"

subsection \<open>Vocabulary of the statements\<close>

text \<open>
  Directory creation lets \<^verbatim>\<open>ensureStagingDir\<close> go on to the probe when
  \<^verbatim>\<open>os.MkdirAll\<close> returns nil or an error of which \<^verbatim>\<open>os.IsExist\<close> holds.
\<close>

definition mkdir_passes :: "host \<Rightarrow> event list \<Rightarrow> string \<Rightarrow> bool" where
  "mkdir_passes h tr path =
     (case os_MkdirAll h tr path 448 of None \<Rightarrow> True | Some err \<Rightarrow> os_IsExist err)"

text \<open>
  The two tables of section 4.1 of the spec, row by row in the spec's order, to compare the
  switches of \<^verbatim>\<open>stageVolume\<close> with.
\<close>

definition spec_AccessType_table :: "structs \<Rightarrow> (string \<times> VolumeAccessType) list" where
  "spec_AccessType_table c =
     [(CSIVolumeAttachmentModeBlockDevice c, VolumeAccessTypeBlock),
      (CSIVolumeAttachmentModeFilesystem c, VolumeAccessTypeMount)]"

definition spec_AccessMode_table :: "structs \<Rightarrow> (string \<times> VolumeAccessMode) list" where
  "spec_AccessMode_table c =
     [(CSIVolumeAccessModeSingleNodeReader c, VolumeAccessModeSingleNodeReaderOnly),
      (CSIVolumeAccessModeSingleNodeWriter c, VolumeAccessModeSingleNodeWriter),
      (CSIVolumeAccessModeMultiNodeReader c, VolumeAccessModeMultiNodeReaderOnly),
      (CSIVolumeAccessModeMultiNodeSingleWriter c, VolumeAccessModeMultiNodeSingleWriter),
      (CSIVolumeAccessModeMultiNodeMultiWriter c, VolumeAccessModeMultiNodeMultiWriter)]"

subsection \<open>The retry executor behind the plugin client\<close>

text \<open>
  Modelled from the spec: the executor that interprets the call options of
  \<^verbatim>\<open>NodeStageVolume\<close> (the retry middleware of the plugin client) is not under src/.
  Sections 4.4, 5 and 7 of the spec: every attempt runs under the per-attempt timeout; a
  failure of the transient class (timeout, resource exhaustion, unavailability) is retried
  after a backoff delay until the maximum number of attempts is used up, and then the last
  error is surfaced; any other failure is surfaced at once. The exponential backoff starts at
  its scalar and doubles with every further retry. At least one attempt is made.
\<close>

record RetryPolicy =
  perRetryTimeout :: Duration
  maxAttempts :: nat
  backoff :: "BackoffFunc option"

fun apply_CallOption :: "RetryPolicy \<Rightarrow> CallOption \<Rightarrow> RetryPolicy" where
  "apply_CallOption p (WithPerRetryTimeout d) = p\<lparr>perRetryTimeout := d\<rparr>"
| "apply_CallOption p (WithMax n) = p\<lparr>maxAttempts := n\<rparr>"
| "apply_CallOption p (WithBackoff f) = p\<lparr>backoff := Some f\<rparr>"

definition policy_of :: "CallOption list \<Rightarrow> RetryPolicy" where
  "policy_of opts =
     foldl apply_CallOption \<lparr>perRetryTimeout = 0, maxAttempts = 1, backoff = None\<rparr> opts"

text \<open>The delay before retry number \<open>n\<close>, counted from 1.\<close>

fun backoff_delay :: "BackoffFunc option \<Rightarrow> nat \<Rightarrow> Duration" where
  "backoff_delay None n = 0"
| "backoff_delay (Some (BackoffExponential scalar)) n = scalar * 2 ^ (n - 1)"

datatype retry_event = Attempt nat Duration | Backoff Duration

text \<open>
  Attempt number \<open>i\<close> with \<open>k\<close> retries left; \<open>call i d\<close> is the outcome of attempt \<open>i\<close>
  under timeout \<open>d\<close>.
\<close>

fun retry_from ::
  "(error \<Rightarrow> bool) \<Rightarrow> (nat \<Rightarrow> Duration \<Rightarrow> error option) \<Rightarrow> RetryPolicy \<Rightarrow> nat \<Rightarrow> nat
     \<Rightarrow> retry_event list \<times> error option" where
  "retry_from transient call p i 0 =
     ([Attempt i (perRetryTimeout p)], call i (perRetryTimeout p))"
| "retry_from transient call p i (Suc k) =
     (case call i (perRetryTimeout p) of
        None \<Rightarrow> ([Attempt i (perRetryTimeout p)], None)
      | Some err \<Rightarrow>
          if transient err then
            (case retry_from transient call p (Suc i) k of
               (log, r) \<Rightarrow>
                 (Attempt i (perRetryTimeout p) # Backoff (backoff_delay (backoff p) (Suc i)) # log,
                  r))
          else ([Attempt i (perRetryTimeout p)], Some err))"

definition run_retry ::
  "(error \<Rightarrow> bool) \<Rightarrow> (nat \<Rightarrow> Duration \<Rightarrow> error option) \<Rightarrow> RetryPolicy
     \<Rightarrow> retry_event list \<times> error option" where
  "run_retry transient call p = retry_from transient call p 0 (maxAttempts p - 1)"

fun backoff_delays :: "retry_event list \<Rightarrow> Duration list" where
  "backoff_delays [] = []"
| "backoff_delays (Backoff d # es) = d # backoff_delays es"
| "backoff_delays (Attempt i d # es) = backoff_delays es"

fun attempts_made :: "retry_event list \<Rightarrow> nat" where
  "attempts_made [] = 0"
| "attempts_made (Attempt i d # es) = Suc (attempts_made es)"
| "attempts_made (Backoff d # es) = attempts_made es"

text \<open>
  A plugin client whose NodeStageVolume runs single attempts (\<open>attempt\<close>, given the call's
  arguments, the attempt number and the timeout) under the executor.
\<close>

definition retrying_plugin ::
  "(error \<Rightarrow> bool) \<Rightarrow>
   (event list \<Rightarrow> string \<Rightarrow> string \<Rightarrow> VolumeCapability \<Rightarrow> nat \<Rightarrow> Duration \<Rightarrow> error option)
     \<Rightarrow> CSIPlugin" where
  "retrying_plugin transient attempt =
     \<lparr>NodeStageVolume = (\<lambda>tr volumeID publishContext stagingPath capability opts.
        snd (run_retry transient (attempt tr volumeID stagingPath capability) (policy_of opts)))\<rparr>"

subsection \<open>Concrete hosts, plugins and volumes\<close>

text \<open>
  The inputs the theorems are instantiated at. The spellings of the mode constants are those
  of Nomad; the scenario is the one of section 8 of the spec: mount root
  \<^verbatim>\<open>/data/csi\<close>, volume \<^verbatim>\<open>vol-1\<close>.
\<close>

definition nomad_structs :: structs where
  "nomad_structs =
     \<lparr>CSIVolumeAttachmentModeBlockDevice = ''block-device'',
      CSIVolumeAttachmentModeFilesystem = ''file-system'',
      CSIVolumeAccessModeSingleNodeReader = ''single-node-reader-only'',
      CSIVolumeAccessModeSingleNodeWriter = ''single-node-writer'',
      CSIVolumeAccessModeMultiNodeReader = ''multi-node-reader-only'',
      CSIVolumeAccessModeMultiNodeSingleWriter = ''multi-node-single-writer'',
      CSIVolumeAccessModeMultiNodeMultiWriter = ''multi-node-multi-writer''\<rparr>"

definition vol_fs :: CSIVolume where
  "vol_fs = \<lparr>ID = ''vol-1'', AttachmentMode = ''file-system'',
             AccessMode = ''single-node-writer''\<rparr>"

definition vol_block :: CSIVolume where
  "vol_block = \<lparr>ID = ''vol-1'', AttachmentMode = ''block-device'',
                AccessMode = ''multi-node-reader-only''\<rparr>"

definition vol_unknown :: CSIVolume where
  "vol_unknown = \<lparr>ID = ''vol-1'', AttachmentMode = ''unknown'',
                  AccessMode = ''single-node-writer''\<rparr>"

definition vol_bad_access :: CSIVolume where
  "vol_bad_access = \<lparr>ID = ''vol-1'', AttachmentMode = ''file-system'',
                     AccessMode = ''everyone-writes''\<rparr>"

text \<open>A host where the directory is created and the path is not a mount point.\<close>

definition host_fresh :: host where
  "host_fresh = \<lparr>modes = nomad_structs, os_MkdirAll = (\<lambda>tr path perm. None),
                 IsNotAMountPoint = (\<lambda>tr path. (True, None))\<rparr>"

text \<open>A host where the directory exists already and the path is a mount point.\<close>

definition host_mounted :: host where
  "host_mounted = \<lparr>modes = nomad_structs,
                   os_MkdirAll = (\<lambda>tr path perm. Some (GoError ''file exists'' True)),
                   IsNotAMountPoint = (\<lambda>tr path. (False, None))\<rparr>"

text \<open>A host where a path is a mount point once the plugin has been asked to stage it.\<close>

fun stages :: "string \<Rightarrow> event \<Rightarrow> bool" where
  "stages path (NodeStageVolume_call i pc p c os) = (p = path)"
| "stages path (MkdirAll_call p m) = False"
| "stages path (IsNotAMountPoint_call p) = False"

definition host_tracking :: host where
  "host_tracking = \<lparr>modes = nomad_structs, os_MkdirAll = (\<lambda>tr path perm. None),
                    IsNotAMountPoint = (\<lambda>tr path. (filter (stages path) tr = [], None))\<rparr>"

text \<open>A host where the directory cannot be created.\<close>

definition host_denied :: host where
  "host_denied = \<lparr>modes = nomad_structs,
                  os_MkdirAll = (\<lambda>tr path perm. Some (GoError ''permission denied'' False)),
                  IsNotAMountPoint = (\<lambda>tr path. (True, None))\<rparr>"

text \<open>A host where the mount table cannot be read.\<close>

definition host_probe_fails :: host where
  "host_probe_fails = \<lparr>modes = nomad_structs, os_MkdirAll = (\<lambda>tr path perm. None),
                       IsNotAMountPoint =
                         (\<lambda>tr path. (False, Some (GoError ''input/output error'' False)))\<rparr>"

definition plugin_ok :: CSIPlugin where
  "plugin_ok = \<lparr>NodeStageVolume = (\<lambda>tr i pc p c os. None)\<rparr>"

definition unavailable :: error where
  "unavailable = GoError ''rpc error: code = Unavailable desc = plugin is not ready'' False"

definition is_unavailable :: "error \<Rightarrow> bool" where
  "is_unavailable e = (e = unavailable)"

definition plugin_unavailable :: CSIPlugin where
  "plugin_unavailable = retrying_plugin is_unavailable (\<lambda>tr i p c n d. Some unavailable)"

definition state_of :: "CSIPlugin \<Rightarrow> bool \<Rightarrow> state" where
  "state_of plugin' requiresStaging' =
     \<lparr>vm = newVolumeManager plugin' ''/data/csi'' requiresStaging', trace = []\<rparr>"

text \<open>
  The staging path of \<^verbatim>\<open>vol-1\<close> under \<^verbatim>\<open>/data/csi\<close>, the state after the
  directory was created and the path probed, and the plugin call that stages \<open>vol_fs\<close>.
\<close>

definition vol_1_path :: string where
  "vol_1_path = ''/data/csi/staging/vol-1/todo-provide-usage-options''"

definition probed :: "CSIPlugin \<Rightarrow> bool \<Rightarrow> state" where
  "probed plugin' requiresStaging' =
     \<lparr>vm = newVolumeManager plugin' ''/data/csi'' requiresStaging',
      trace = [MkdirAll_call vol_1_path 448, IsNotAMountPoint_call vol_1_path]\<rparr>"

definition stage_call_fs :: event where
  "stage_call_fs =
     NodeStageVolume_call ''vol-1'' None vol_1_path
       \<lparr>AccessType = VolumeAccessTypeMount, WireAccessMode = VolumeAccessModeSingleNodeWriter,
        MountOptions = EmptyVolumeMountOptions\<rparr> stage_CallOptions"

definition staged :: "CSIPlugin \<Rightarrow> bool \<Rightarrow> state" where
  "staged plugin' requiresStaging' =
     \<lparr>vm = newVolumeManager plugin' ''/data/csi'' requiresStaging',
      trace = [MkdirAll_call vol_1_path 448, IsNotAMountPoint_call vol_1_path, stage_call_fs]\<rparr>"

section \<open>Properties\<close>

subsection \<open>How a call of ensureStagingDir and of stageVolume runs\<close>

lemma ensureStagingDir_mkdir_fails:
  assumes "os_MkdirAll h (trace s) (stagingDirForVolume (vm s) vol) 448 = Some err"
    and "\<not> os_IsExist err"
  shows "ensureStagingDir h vol s =
    ((False, [], Some (Errorf (''failed to create staging directory for volume (''
        @ ID vol @ ''): '' @ Error err))),
     s\<lparr>trace := trace s @ [MkdirAll_call (stagingDirForVolume (vm s) vol) 448]\<rparr>)"
  using assms by (simp add: ensureStagingDir_def Let_def)

lemma ensureStagingDir_probe:
  assumes "mkdir_passes h (trace s) (stagingDirForVolume (vm s) vol)"
    and "IsNotAMountPoint h (trace s @ [MkdirAll_call (stagingDirForVolume (vm s) vol) 448])
           (stagingDirForVolume (vm s) vol) = (isNotMount, probeErr)"
  shows "ensureStagingDir h vol s =
    ((case probeErr of
        Some err \<Rightarrow> (False, [], Some (Errorf (''mount point detection failed for volume (''
                       @ ID vol @ ''): '' @ Error err)))
      | None \<Rightarrow> (\<not> isNotMount, stagingDirForVolume (vm s) vol, None)),
     s\<lparr>trace := trace s @ [MkdirAll_call (stagingDirForVolume (vm s) vol) 448,
                            IsNotAMountPoint_call (stagingDirForVolume (vm s) vol)]\<rparr>)"
  using assms
  by (auto simp add: ensureStagingDir_def mkdir_passes_def Let_def split: option.splits)

lemma ensureStagingDir_vm: "vm (snd (ensureStagingDir h vol s)) = vm s"
  by (simp add: ensureStagingDir_def Let_def split: option.splits prod.splits)

lemma ensureStagingDir_no_plugin_call:
  "filter is_NodeStageVolume_call (trace (snd (ensureStagingDir h vol s)))
     = filter is_NodeStageVolume_call (trace s)"
  by (simp add: ensureStagingDir_def Let_def split: option.splits prod.splits)

lemma stageVolume_ensure_error:
  assumes "ensureStagingDir h vol s = ((b, p, Some err), s1)"
  shows "stageVolume h vol s = (Some err, s1)"
  using assms by (simp add: stageVolume_def)

lemma stageVolume_existing:
  assumes "ensureStagingDir h vol s = ((True, p, None), s1)"
  shows "stageVolume h vol s = (None, s1)"
  using assms by (simp add: stageVolume_def)

lemma stageVolume_accessType_error:
  assumes "ensureStagingDir h vol s = ((False, p, None), s1)"
    and "accessType_switch (modes h) vol = Inl err"
  shows "stageVolume h vol s = (Some err, s1)"
  using assms by (simp add: stageVolume_def)

lemma stageVolume_accessMode_error:
  assumes "ensureStagingDir h vol s = ((False, p, None), s1)"
    and "accessType_switch (modes h) vol = Inr accessType"
    and "accessMode_switch (modes h) vol = Inl err"
  shows "stageVolume h vol s = (Some err, s1)"
  using assms by (simp add: stageVolume_def)

lemma stageVolume_plugin_call:
  assumes "ensureStagingDir h vol s = ((False, p, None), s1)"
    and "accessType_switch (modes h) vol = Inr accessType"
    and "accessMode_switch (modes h) vol = Inr accessMode"
  shows "stageVolume h vol s =
     (NodeStageVolume (plugin (vm s1)) (trace s1) (ID vol) None p
        \<lparr>AccessType = accessType, WireAccessMode = accessMode,
         MountOptions = EmptyVolumeMountOptions\<rparr> stage_CallOptions,
      s1\<lparr>trace := trace s1 @ [NodeStageVolume_call (ID vol) None p
        \<lparr>AccessType = accessType, WireAccessMode = accessMode,
         MountOptions = EmptyVolumeMountOptions\<rparr> stage_CallOptions]\<rparr>)"
  using assms by (simp add: stageVolume_def Let_def)

lemma stageVolume_vm: "vm (snd (stageVolume h vol s)) = vm s"
proof -
  obtain b p e s1 where r: "ensureStagingDir h vol s = ((b, p, e), s1)"
    by (metis prod.exhaust)
  with ensureStagingDir_vm [of h vol s] have v: "vm s1 = vm s"
    by simp
  show ?thesis
  proof (cases e)
    case (Some err)
    with r v show ?thesis by (simp add: stageVolume_ensure_error)
  next
    case None
    note e = this
    show ?thesis
    proof (cases b)
      case True
      with r e v show ?thesis by (simp add: stageVolume_existing)
    next
      case False
      note b = this
      show ?thesis
      proof (cases "accessType_switch (modes h) vol")
        case (Inl err)
        with r e b v show ?thesis by (simp add: stageVolume_accessType_error)
      next
        case (Inr accessType)
        note at = this
        show ?thesis
        proof (cases "accessMode_switch (modes h) vol")
          case (Inl err)
          with r e b at v show ?thesis by (simp add: stageVolume_accessMode_error)
        next
          case (Inr accessMode)
          with r e b at v show ?thesis by (simp add: stageVolume_plugin_call)
        qed
      qed
    qed
  qed
qed

lemma accessType_switch_known:
  assumes "distinct (attachment_modes c)"
  shows "(accessType_switch c vol = Inr accessType)
     = (map_of (spec_AccessType_table c) (AttachmentMode vol) = Some accessType)"
  using assms
  by (auto simp add: accessType_switch_def spec_AccessType_table_def attachment_modes_def)

lemma accessMode_switch_known:
  assumes "distinct (access_modes c)"
  shows "(accessMode_switch c vol = Inr accessMode)
     = (map_of (spec_AccessMode_table c) (AccessMode vol) = Some accessMode)"
  using assms
  by (auto simp add: accessMode_switch_def spec_AccessMode_table_def access_modes_def)

lemma accessType_switch_unknown:
  "(AttachmentMode vol \<notin> set (attachment_modes c))
     = (accessType_switch c vol
          = Inl (Errorf (''Unknown volume attachment mode: '' @ AttachmentMode vol)))"
  by (simp add: accessType_switch_def attachment_modes_def)

lemma accessMode_switch_unknown:
  "(AccessMode vol \<notin> set (access_modes c))
     = (accessMode_switch c vol
          = Inl (Errorf (''Unknown volume access mode: '' @ AccessMode vol)))"
  by (auto simp add: accessMode_switch_def access_modes_def)

lemma known_attachment_in_table:
  assumes "a \<in> set (attachment_modes c)"
  shows "\<exists>accessType. map_of (spec_AccessType_table c) a = Some accessType"
  using assms by (auto simp add: attachment_modes_def spec_AccessType_table_def)

lemma known_access_in_table:
  assumes "m \<in> set (access_modes c)"
  shows "\<exists>accessMode. map_of (spec_AccessMode_table c) m = Some accessMode"
  using assms by (auto simp add: access_modes_def spec_AccessMode_table_def)

lemma accessType_switch_total:
  assumes "AttachmentMode vol \<in> set (attachment_modes c)"
  shows "\<exists>accessType. accessType_switch c vol = Inr accessType"
  using assms by (auto simp add: accessType_switch_def attachment_modes_def)

lemma stageVolume_no_plugin_call_on_unknown:
  assumes "AttachmentMode vol \<notin> set (attachment_modes (modes h))
           \<or> AccessMode vol \<notin> set (access_modes (modes h))"
  shows "filter is_NodeStageVolume_call (trace (snd (stageVolume h vol s)))
     = filter is_NodeStageVolume_call (trace s)"
proof -
  obtain b p e s1 where r: "ensureStagingDir h vol s = ((b, p, e), s1)"
    by (metis prod.exhaust)
  with ensureStagingDir_no_plugin_call [of h vol s]
  have t: "filter is_NodeStageVolume_call (trace s1) = filter is_NodeStageVolume_call (trace s)"
    by simp
  show ?thesis
  proof (cases e)
    case (Some err)
    with r t show ?thesis by (simp add: stageVolume_ensure_error)
  next
    case None
    note e = this
    show ?thesis
    proof (cases b)
      case True
      with r e t show ?thesis by (simp add: stageVolume_existing)
    next
      case False
      note b = this
      show ?thesis
      proof (cases "accessType_switch (modes h) vol")
        case (Inl err)
        with r e b t show ?thesis by (simp add: stageVolume_accessType_error)
      next
        case (Inr accessType)
        then have "AttachmentMode vol \<in> set (attachment_modes (modes h))"
          using accessType_switch_unknown [of vol "modes h"] by auto
        with assms have "AccessMode vol \<notin> set (access_modes (modes h))"
          by simp
        then have "accessMode_switch (modes h) vol
          = Inl (Errorf (''Unknown volume access mode: '' @ AccessMode vol))"
          by (simp only: accessMode_switch_unknown)
        with r e b t Inr show ?thesis by (simp add: stageVolume_accessMode_error)
      qed
    qed
  qed
qed

subsection \<open>Runs on the concrete hosts\<close>

lemma staging_path_vol_1:
  assumes "mountRoot v = ''/data/csi''" and "ID vol = ''vol-1''"
  shows "stagingDirForVolume v vol = vol_1_path"
  using assms
  by (simp add: stagingDirForVolume_def StagingDirName_def filepath_Join_def Clean_def
      clean_elem_def vol_1_path_def)

lemma wellformed_nomad_structs: "wellformed_structs nomad_structs"
  by (simp add: wellformed_structs_def attachment_modes_def access_modes_def nomad_structs_def)

lemma ensureStagingDir_host_fresh:
  assumes "ID vol = ''vol-1''"
  shows "ensureStagingDir host_fresh vol (state_of pl b) = ((False, vol_1_path, None), probed pl b)"
  using assms
  by (simp add: ensureStagingDir_def Let_def host_fresh_def state_of_def staging_path_vol_1
      newVolumeManager_def probed_def)

lemma ensureStagingDir_host_mounted:
  assumes "ID vol = ''vol-1''"
  shows "ensureStagingDir host_mounted vol (state_of pl b) = ((True, vol_1_path, None), probed pl b)"
  using assms
  by (simp add: ensureStagingDir_def Let_def host_mounted_def state_of_def staging_path_vol_1
      newVolumeManager_def probed_def)

lemma ensureStagingDir_host_tracking:
  assumes "ID vol = ''vol-1''"
  shows "ensureStagingDir host_tracking vol (state_of pl b)
    = ((False, vol_1_path, None), probed pl b)"
  using assms
  by (simp add: ensureStagingDir_def Let_def host_tracking_def state_of_def staging_path_vol_1
      newVolumeManager_def probed_def)

lemma switch_vol_fs:
  "accessType_switch nomad_structs vol_fs = Inr VolumeAccessTypeMount"
  "accessMode_switch nomad_structs vol_fs = Inr VolumeAccessModeSingleNodeWriter"
  by (simp_all add: accessType_switch_def accessMode_switch_def nomad_structs_def vol_fs_def)

lemma stageVolume_vol_fs:
  assumes "modes h = nomad_structs"
    and "ensureStagingDir h vol_fs (state_of pl b) = ((False, vol_1_path, None), probed pl b)"
  shows "stageVolume h vol_fs (state_of pl b)
    = (NodeStageVolume pl [MkdirAll_call vol_1_path 448, IsNotAMountPoint_call vol_1_path]
         ''vol-1'' None vol_1_path
         \<lparr>AccessType = VolumeAccessTypeMount, WireAccessMode = VolumeAccessModeSingleNodeWriter,
          MountOptions = EmptyVolumeMountOptions\<rparr> stage_CallOptions,
       staged pl b)"
proof -
  have "stageVolume h vol_fs (state_of pl b) =
     (NodeStageVolume (plugin (vm (probed pl b))) (trace (probed pl b)) (ID vol_fs) None vol_1_path
        \<lparr>AccessType = VolumeAccessTypeMount, WireAccessMode = VolumeAccessModeSingleNodeWriter,
         MountOptions = EmptyVolumeMountOptions\<rparr> stage_CallOptions,
      (probed pl b)\<lparr>trace := trace (probed pl b) @ [NodeStageVolume_call (ID vol_fs) None vol_1_path
        \<lparr>AccessType = VolumeAccessTypeMount, WireAccessMode = VolumeAccessModeSingleNodeWriter,
         MountOptions = EmptyVolumeMountOptions\<rparr> stage_CallOptions]\<rparr>)"
    using assms switch_vol_fs by (intro stageVolume_plugin_call) simp_all
  then show ?thesis
    by (simp add: probed_def staged_def stage_call_fs_def newVolumeManager_def vol_fs_def)
qed

subsection \<open>Capability translation\<close>

text \<open>
  C1, as the code has it. The translation is reached only after \<^verbatim>\<open>ensureStagingDir\<close>
  has returned without error and has not reported an existing mount. Whenever it is reached:
  for an attachment mode among the two known ones and an access mode among the five known
  ones it succeeds, the pair is the one of the two tables of section 4.1 of the spec, and the
  plugin's NodeStageVolume is called with exactly that pair; an attachment mode outside the
  enumeration gives the error "Unknown volume attachment mode", an access mode outside the
  enumeration the error "Unknown volume access mode" (the InvalidState class), with no call
  of the plugin. In no run at all is the plugin called for a volume with a mode outside the
  enumerations.
\<close>

theorem stageVolume_capability_translation:
  assumes wf: "wellformed_structs (modes h)"
  shows "(ensureStagingDir h vol s = ((False, p, None), s1)
          \<and> AttachmentMode vol \<in> set (attachment_modes (modes h))
          \<and> AccessMode vol \<in> set (access_modes (modes h)) \<longrightarrow>
            (\<exists>accessType accessMode.
               map_of (spec_AccessType_table (modes h)) (AttachmentMode vol) = Some accessType
             \<and> map_of (spec_AccessMode_table (modes h)) (AccessMode vol) = Some accessMode
             \<and> stageVolume h vol s =
                 (NodeStageVolume (plugin (vm s1)) (trace s1) (ID vol) None p
                    \<lparr>AccessType = accessType, WireAccessMode = accessMode,
                     MountOptions = EmptyVolumeMountOptions\<rparr> stage_CallOptions,
                  s1\<lparr>trace := trace s1 @ [NodeStageVolume_call (ID vol) None p
                    \<lparr>AccessType = accessType, WireAccessMode = accessMode,
                     MountOptions = EmptyVolumeMountOptions\<rparr> stage_CallOptions]\<rparr>)))
       \<and> (ensureStagingDir h vol s = ((False, p, None), s1)
          \<and> AttachmentMode vol \<notin> set (attachment_modes (modes h)) \<longrightarrow>
            stageVolume h vol s =
              (Some (Errorf (''Unknown volume attachment mode: '' @ AttachmentMode vol)), s1))
       \<and> (ensureStagingDir h vol s = ((False, p, None), s1)
          \<and> AttachmentMode vol \<in> set (attachment_modes (modes h))
          \<and> AccessMode vol \<notin> set (access_modes (modes h)) \<longrightarrow>
            stageVolume h vol s =
              (Some (Errorf (''Unknown volume access mode: '' @ AccessMode vol)), s1))
       \<and> (AttachmentMode vol \<notin> set (attachment_modes (modes h))
          \<or> AccessMode vol \<notin> set (access_modes (modes h)) \<longrightarrow>
            filter is_NodeStageVolume_call (trace (snd (stageVolume h vol s)))
              = filter is_NodeStageVolume_call (trace s))"
proof (intro conjI impI)
  assume a: "ensureStagingDir h vol s = ((False, p, None), s1)
          \<and> AttachmentMode vol \<in> set (attachment_modes (modes h))
          \<and> AccessMode vol \<in> set (access_modes (modes h))"
  from wf have d: "distinct (attachment_modes (modes h))" "distinct (access_modes (modes h))"
    by (simp_all add: wellformed_structs_def)
  from a obtain accessType accessMode
    where t: "map_of (spec_AccessType_table (modes h)) (AttachmentMode vol) = Some accessType"
      and m: "map_of (spec_AccessMode_table (modes h)) (AccessMode vol) = Some accessMode"
    using known_attachment_in_table known_access_in_table by blast
  from t d have "accessType_switch (modes h) vol = Inr accessType"
    by (simp add: accessType_switch_known)
  moreover from m d have "accessMode_switch (modes h) vol = Inr accessMode"
    by (simp add: accessMode_switch_known)
  ultimately have "stageVolume h vol s =
                 (NodeStageVolume (plugin (vm s1)) (trace s1) (ID vol) None p
                    \<lparr>AccessType = accessType, WireAccessMode = accessMode,
                     MountOptions = EmptyVolumeMountOptions\<rparr> stage_CallOptions,
                  s1\<lparr>trace := trace s1 @ [NodeStageVolume_call (ID vol) None p
                    \<lparr>AccessType = accessType, WireAccessMode = accessMode,
                     MountOptions = EmptyVolumeMountOptions\<rparr> stage_CallOptions]\<rparr>)"
    using a by (intro stageVolume_plugin_call) simp_all
  with t m show "\<exists>accessType accessMode.
               map_of (spec_AccessType_table (modes h)) (AttachmentMode vol) = Some accessType
             \<and> map_of (spec_AccessMode_table (modes h)) (AccessMode vol) = Some accessMode
             \<and> stageVolume h vol s =
                 (NodeStageVolume (plugin (vm s1)) (trace s1) (ID vol) None p
                    \<lparr>AccessType = accessType, WireAccessMode = accessMode,
                     MountOptions = EmptyVolumeMountOptions\<rparr> stage_CallOptions,
                  s1\<lparr>trace := trace s1 @ [NodeStageVolume_call (ID vol) None p
                    \<lparr>AccessType = accessType, WireAccessMode = accessMode,
                     MountOptions = EmptyVolumeMountOptions\<rparr> stage_CallOptions]\<rparr>)"
    by blast
next
  assume a: "ensureStagingDir h vol s = ((False, p, None), s1)
          \<and> AttachmentMode vol \<notin> set (attachment_modes (modes h))"
  then have "accessType_switch (modes h) vol
          = Inl (Errorf (''Unknown volume attachment mode: '' @ AttachmentMode vol))"
    by (simp only: accessType_switch_unknown)
  with a show "stageVolume h vol s =
              (Some (Errorf (''Unknown volume attachment mode: '' @ AttachmentMode vol)), s1)"
    by (intro stageVolume_accessType_error) simp_all
next
  assume a: "ensureStagingDir h vol s = ((False, p, None), s1)
          \<and> AttachmentMode vol \<in> set (attachment_modes (modes h))
          \<and> AccessMode vol \<notin> set (access_modes (modes h))"
  then obtain accessType where "accessType_switch (modes h) vol = Inr accessType"
    using accessType_switch_total by blast
  moreover from a have "accessMode_switch (modes h) vol
          = Inl (Errorf (''Unknown volume access mode: '' @ AccessMode vol))"
    by (simp only: accessMode_switch_unknown)
  ultimately show "stageVolume h vol s =
              (Some (Errorf (''Unknown volume access mode: '' @ AccessMode vol)), s1)"
    using a by (intro stageVolume_accessMode_error) simp_all
next
  assume "AttachmentMode vol \<notin> set (attachment_modes (modes h))
          \<or> AccessMode vol \<notin> set (access_modes (modes h))"
  then show "filter is_NodeStageVolume_call (trace (snd (stageVolume h vol s)))
              = filter is_NodeStageVolume_call (trace s)"
    by (rule stageVolume_no_plugin_call_on_unknown)
qed

text \<open>
  C1 as stated fails: it promises the InvalidState error for every volume with an unknown
  mode, but on a staging path that is already a mount point \<^verbatim>\<open>stageVolume\<close> returns
  nil before it looks at the modes.
\<close>

theorem stageVolume_unknown_mode_on_mount_point:
  "AttachmentMode vol_unknown \<notin> set (attachment_modes (modes host_mounted))
   \<and> stageVolume host_mounted vol_unknown (state_of plugin_ok True) = (None, probed plugin_ok True)"
proof -
  have "ensureStagingDir host_mounted vol_unknown (state_of plugin_ok True)
      = ((True, vol_1_path, None), probed plugin_ok True)"
    by (simp add: ensureStagingDir_host_mounted vol_unknown_def)
  then have "stageVolume host_mounted vol_unknown (state_of plugin_ok True)
      = (None, probed plugin_ok True)"
    by (rule stageVolume_existing)
  then show ?thesis
    by (simp add: vol_unknown_def host_mounted_def attachment_modes_def nomad_structs_def)
qed

text \<open>
  The theorem of C1 at the scenario of the spec, for a known pair of modes, an unknown
  attachment mode and an unknown access mode.
\<close>

theorem stageVolume_capability_translation_witness:
  "wellformed_structs (modes host_fresh)
   \<and> ensureStagingDir host_fresh vol_fs (state_of plugin_ok True)
       = ((False, vol_1_path, None), probed plugin_ok True)
   \<and> stageVolume host_fresh vol_fs (state_of plugin_ok True) = (None, staged plugin_ok True)
   \<and> stageVolume host_fresh vol_unknown (state_of plugin_ok True)
       = (Some (GoError ''Unknown volume attachment mode: unknown'' False), probed plugin_ok True)
   \<and> stageVolume host_fresh vol_bad_access (state_of plugin_ok True)
       = (Some (GoError ''Unknown volume access mode: everyone-writes'' False),
          probed plugin_ok True)"
proof -
  have wf: "wellformed_structs (modes host_fresh)"
    by (simp add: host_fresh_def wellformed_nomad_structs)
  have r1: "ensureStagingDir host_fresh vol_fs (state_of plugin_ok True)
       = ((False, vol_1_path, None), probed plugin_ok True)"
    by (simp add: ensureStagingDir_host_fresh vol_fs_def)
  have r2: "ensureStagingDir host_fresh vol_unknown (state_of plugin_ok True)
       = ((False, vol_1_path, None), probed plugin_ok True)"
    by (simp add: ensureStagingDir_host_fresh vol_unknown_def)
  have r3: "ensureStagingDir host_fresh vol_bad_access (state_of plugin_ok True)
       = ((False, vol_1_path, None), probed plugin_ok True)"
    by (simp add: ensureStagingDir_host_fresh vol_bad_access_def)
  have k1: "AttachmentMode vol_fs \<in> set (attachment_modes (modes host_fresh))
      \<and> AccessMode vol_fs \<in> set (access_modes (modes host_fresh))"
    by (simp add: vol_fs_def host_fresh_def attachment_modes_def access_modes_def
        nomad_structs_def)
  have k2: "AttachmentMode vol_unknown \<notin> set (attachment_modes (modes host_fresh))"
    by (simp add: vol_unknown_def host_fresh_def attachment_modes_def nomad_structs_def)
  have k3: "AttachmentMode vol_bad_access \<in> set (attachment_modes (modes host_fresh))
      \<and> AccessMode vol_bad_access \<notin> set (access_modes (modes host_fresh))"
    by (simp add: vol_bad_access_def host_fresh_def attachment_modes_def access_modes_def
        nomad_structs_def)
  from stageVolume_capability_translation
    [OF wf, of vol_fs "state_of plugin_ok True" vol_1_path "probed plugin_ok True"] r1 k1
  have "stageVolume host_fresh vol_fs (state_of plugin_ok True) = (None, staged plugin_ok True)"
    by (auto simp add: spec_AccessType_table_def spec_AccessMode_table_def host_fresh_def
        nomad_structs_def vol_fs_def probed_def staged_def stage_call_fs_def plugin_ok_def
        newVolumeManager_def)
  moreover
  from stageVolume_capability_translation
    [OF wf, of vol_unknown "state_of plugin_ok True" vol_1_path "probed plugin_ok True"] r2 k2
  have "stageVolume host_fresh vol_unknown (state_of plugin_ok True)
       = (Some (GoError ''Unknown volume attachment mode: unknown'' False), probed plugin_ok True)"
    by (simp add: vol_unknown_def Errorf_def)
  moreover
  from stageVolume_capability_translation
    [OF wf, of vol_bad_access "state_of plugin_ok True" vol_1_path "probed plugin_ok True"] r3 k3
  have "stageVolume host_fresh vol_bad_access (state_of plugin_ok True)
       = (Some (GoError ''Unknown volume access mode: everyone-writes'' False),
          probed plugin_ok True)"
    by (simp add: vol_bad_access_def Errorf_def)
  ultimately show ?thesis using wf r1 by simp
qed

subsection \<open>Re-using an existing staging mount\<close>

text \<open>
  C2. When directory creation lets \<^verbatim>\<open>ensureStagingDir\<close> reach the probe and the
  probe reports that the staging path is a mount point (it returns false for "is not a mount
  point", and no error), \<^verbatim>\<open>stageVolume\<close> returns nil after exactly these two
  filesystem calls: the plugin's NodeStageVolume is not called. The state is arbitrary, so this
  holds for a repeated call on a volume that is staged already.
\<close>

theorem stageVolume_reuses_existing_mount:
  assumes "mkdir_passes h (trace s) (stagingDirForVolume (vm s) vol)"
    and "IsNotAMountPoint h (trace s @ [MkdirAll_call (stagingDirForVolume (vm s) vol) 448])
           (stagingDirForVolume (vm s) vol) = (False, None)"
  shows "stageVolume h vol s =
           (None, s\<lparr>trace := trace s @ [MkdirAll_call (stagingDirForVolume (vm s) vol) 448,
                                        IsNotAMountPoint_call (stagingDirForVolume (vm s) vol)]\<rparr>)
         \<and> filter is_NodeStageVolume_call (trace (snd (stageVolume h vol s)))
             = filter is_NodeStageVolume_call (trace s)"
proof -
  from ensureStagingDir_probe [OF assms]
  have "ensureStagingDir h vol s =
      ((True, stagingDirForVolume (vm s) vol, None),
       s\<lparr>trace := trace s @ [MkdirAll_call (stagingDirForVolume (vm s) vol) 448,
                              IsNotAMountPoint_call (stagingDirForVolume (vm s) vol)]\<rparr>)"
    by simp
  then have "stageVolume h vol s =
           (None, s\<lparr>trace := trace s @ [MkdirAll_call (stagingDirForVolume (vm s) vol) 448,
                                        IsNotAMountPoint_call (stagingDirForVolume (vm s) vol)]\<rparr>)"
    by (rule stageVolume_existing)
  then show ?thesis by simp
qed

text \<open>
  The theorem of C2 on a host where a path is a mount point once the plugin has staged it:
  the first call stages \<^verbatim>\<open>vol-1\<close> through the plugin, the second call meets the
  mount point, returns nil, and the trace still holds the one plugin call.
\<close>

theorem stageVolume_reuses_existing_mount_witness:
  "stageVolume host_tracking vol_fs (state_of plugin_ok True) = (None, staged plugin_ok True)
   \<and> filter is_NodeStageVolume_call (trace (staged plugin_ok True)) = [stage_call_fs]
   \<and> mkdir_passes host_tracking (trace (staged plugin_ok True)) vol_1_path
   \<and> IsNotAMountPoint host_tracking
        (trace (staged plugin_ok True) @ [MkdirAll_call vol_1_path 448]) vol_1_path
       = (False, None)
   \<and> stageVolume host_tracking vol_fs (staged plugin_ok True)
       = (None, (staged plugin_ok True)\<lparr>trace := trace (staged plugin_ok True)
            @ [MkdirAll_call vol_1_path 448, IsNotAMountPoint_call vol_1_path]\<rparr>)
   \<and> filter is_NodeStageVolume_call
        (trace (snd (stageVolume host_tracking vol_fs (staged plugin_ok True))))
       = [stage_call_fs]"
proof -
  have m: "modes host_tracking = nomad_structs"
    by (simp add: host_tracking_def)
  have r: "ensureStagingDir host_tracking vol_fs (state_of plugin_ok True)
      = ((False, vol_1_path, None), probed plugin_ok True)"
    by (simp add: ensureStagingDir_host_tracking vol_fs_def)
  from stageVolume_vol_fs [OF m r]
  have first: "stageVolume host_tracking vol_fs (state_of plugin_ok True)
      = (None, staged plugin_ok True)"
    by (simp add: plugin_ok_def)
  have calls: "filter is_NodeStageVolume_call (trace (staged plugin_ok True)) = [stage_call_fs]"
    by (simp add: staged_def stage_call_fs_def)
  have path: "stagingDirForVolume (vm (staged plugin_ok True)) vol_fs = vol_1_path"
    by (simp add: staging_path_vol_1 staged_def newVolumeManager_def vol_fs_def)
  have mk: "mkdir_passes host_tracking (trace (staged plugin_ok True)) vol_1_path"
    by (simp add: mkdir_passes_def host_tracking_def)
  have pr: "IsNotAMountPoint host_tracking
        (trace (staged plugin_ok True) @ [MkdirAll_call vol_1_path 448]) vol_1_path
       = (False, None)"
    by (simp add: host_tracking_def staged_def stage_call_fs_def)
  from stageVolume_reuses_existing_mount [of host_tracking "staged plugin_ok True" vol_fs]
    mk pr path
  have second: "stageVolume host_tracking vol_fs (staged plugin_ok True)
       = (None, (staged plugin_ok True)\<lparr>trace := trace (staged plugin_ok True)
            @ [MkdirAll_call vol_1_path 448, IsNotAMountPoint_call vol_1_path]\<rparr>)"
    and "filter is_NodeStageVolume_call
        (trace (snd (stageVolume host_tracking vol_fs (staged plugin_ok True))))
       = filter is_NodeStageVolume_call (trace (staged plugin_ok True))"
    by simp_all
  then have still: "filter is_NodeStageVolume_call
        (trace (snd (stageVolume host_tracking vol_fs (staged plugin_ok True))))
       = [stage_call_fs]"
    by (simp only: calls)
  from first calls mk pr second still show ?thesis
    by (intro conjI)
qed

subsection \<open>The volumes map\<close>

text \<open>
  C3 at a failing input. On a new manager the plugin stages \<^verbatim>\<open>vol-1\<close>
  successfully and \<^verbatim>\<open>stageVolume\<close> returns nil, yet afterwards the
  \<^verbatim>\<open>volumes\<close> map has no entry at all, hence none that is Staged with reference
  count 0: \<^verbatim>\<open>stageVolume\<close> returns the plugin's result and never writes the map that
  \<^verbatim>\<open>newVolumeManager\<close> allocates.
\<close>

theorem stageVolume_success_records_nothing:
  "stageVolume host_fresh vol_fs (state_of plugin_ok True) = (None, staged plugin_ok True)
   \<and> stage_call_fs \<in> set (trace (staged plugin_ok True))
   \<and> dom (volumes (vm (staged plugin_ok True))) = {}"
proof -
  have m: "modes host_fresh = nomad_structs"
    by (simp add: host_fresh_def)
  have r: "ensureStagingDir host_fresh vol_fs (state_of plugin_ok True)
      = ((False, vol_1_path, None), probed plugin_ok True)"
    by (simp add: ensureStagingDir_host_fresh vol_fs_def)
  from stageVolume_vol_fs [OF m r]
  have "stageVolume host_fresh vol_fs (state_of plugin_ok True) = (None, staged plugin_ok True)"
    by (simp add: plugin_ok_def)
  then show ?thesis
    by (simp add: staged_def newVolumeManager_def)
qed

subsection \<open>An unknown attachment mode\<close>

text \<open>
  C4, as the code has it. For a volume whose attachment mode is outside the enumeration,
  \<^verbatim>\<open>stageVolume\<close> first creates the staging directory and probes the path; when
  both succeed and the path is not a mount point it returns the error "Unknown volume
  attachment mode" right after these two filesystem calls. In no run does it call the plugin.
\<close>

theorem stageVolume_unknown_attachment_after_probe:
  assumes "AttachmentMode vol \<notin> set (attachment_modes (modes h))"
  shows "(mkdir_passes h (trace s) (stagingDirForVolume (vm s) vol)
          \<and> IsNotAMountPoint h (trace s @ [MkdirAll_call (stagingDirForVolume (vm s) vol) 448])
               (stagingDirForVolume (vm s) vol) = (True, None) \<longrightarrow>
            stageVolume h vol s =
              (Some (Errorf (''Unknown volume attachment mode: '' @ AttachmentMode vol)),
               s\<lparr>trace := trace s @ [MkdirAll_call (stagingDirForVolume (vm s) vol) 448,
                                     IsNotAMountPoint_call (stagingDirForVolume (vm s) vol)]\<rparr>))
       \<and> filter is_NodeStageVolume_call (trace (snd (stageVolume h vol s)))
           = filter is_NodeStageVolume_call (trace s)"
proof (intro conjI impI)
  assume a: "mkdir_passes h (trace s) (stagingDirForVolume (vm s) vol)
          \<and> IsNotAMountPoint h (trace s @ [MkdirAll_call (stagingDirForVolume (vm s) vol) 448])
               (stagingDirForVolume (vm s) vol) = (True, None)"
  then have r: "ensureStagingDir h vol s =
      ((False, stagingDirForVolume (vm s) vol, None),
       s\<lparr>trace := trace s @ [MkdirAll_call (stagingDirForVolume (vm s) vol) 448,
                              IsNotAMountPoint_call (stagingDirForVolume (vm s) vol)]\<rparr>)"
    using ensureStagingDir_probe [of h s vol True None] by simp
  from assms have "accessType_switch (modes h) vol
      = Inl (Errorf (''Unknown volume attachment mode: '' @ AttachmentMode vol))"
    by (simp only: accessType_switch_unknown)
  with r show "stageVolume h vol s =
              (Some (Errorf (''Unknown volume attachment mode: '' @ AttachmentMode vol)),
               s\<lparr>trace := trace s @ [MkdirAll_call (stagingDirForVolume (vm s) vol) 448,
                                     IsNotAMountPoint_call (stagingDirForVolume (vm s) vol)]\<rparr>)"
    by (rule stageVolume_accessType_error)
next
  from assms show "filter is_NodeStageVolume_call (trace (snd (stageVolume h vol s)))
           = filter is_NodeStageVolume_call (trace s)"
    by (intro stageVolume_no_plugin_call_on_unknown) simp
qed

text \<open>
  C4 as stated fails: for the attachment mode \<^verbatim>\<open>unknown\<close> the error is returned
  only after \<^verbatim>\<open>os.MkdirAll\<close> and \<^verbatim>\<open>IsNotAMountPoint\<close> have been called on
  the staging path, starting from an empty trace.
\<close>

theorem stageVolume_unknown_attachment_touches_filesystem:
  "AttachmentMode vol_unknown \<notin> set (attachment_modes (modes host_fresh))
   \<and> trace (state_of plugin_ok True) = []
   \<and> stageVolume host_fresh vol_unknown (state_of plugin_ok True)
       = (Some (GoError ''Unknown volume attachment mode: unknown'' False),
          probed plugin_ok True)
   \<and> filter is_filesystem_call (trace (probed plugin_ok True))
       = [MkdirAll_call ''/data/csi/staging/vol-1/todo-provide-usage-options'' 448,
          IsNotAMountPoint_call ''/data/csi/staging/vol-1/todo-provide-usage-options'']"
proof -
  have k: "AttachmentMode vol_unknown \<notin> set (attachment_modes (modes host_fresh))"
    by (simp add: vol_unknown_def host_fresh_def attachment_modes_def nomad_structs_def)
  then have a: "accessType_switch (modes host_fresh) vol_unknown
      = Inl (Errorf (''Unknown volume attachment mode: '' @ AttachmentMode vol_unknown))"
    by (simp only: accessType_switch_unknown)
  have r: "ensureStagingDir host_fresh vol_unknown (state_of plugin_ok True)
      = ((False, vol_1_path, None), probed plugin_ok True)"
    by (simp add: ensureStagingDir_host_fresh vol_unknown_def)
  from stageVolume_accessType_error [OF r a]
  have "stageVolume host_fresh vol_unknown (state_of plugin_ok True)
       = (Some (GoError ''Unknown volume attachment mode: unknown'' False),
          probed plugin_ok True)"
    by (simp add: vol_unknown_def Errorf_def)
  with k show ?thesis
    by (simp add: probed_def vol_1_path_def state_of_def)
qed

text \<open>
  The theorem of C4 at the volume with attachment mode \<^verbatim>\<open>unknown\<close>.
\<close>

theorem stageVolume_unknown_attachment_after_probe_witness:
  "AttachmentMode vol_unknown \<notin> set (attachment_modes (modes host_fresh))
   \<and> mkdir_passes host_fresh [] vol_1_path
   \<and> IsNotAMountPoint host_fresh [MkdirAll_call vol_1_path 448] vol_1_path = (True, None)
   \<and> stageVolume host_fresh vol_unknown (state_of plugin_ok True)
       = (Some (GoError ''Unknown volume attachment mode: unknown'' False),
          probed plugin_ok True)
   \<and> filter is_NodeStageVolume_call
        (trace (snd (stageVolume host_fresh vol_unknown (state_of plugin_ok True)))) = []"
proof -
  have k: "AttachmentMode vol_unknown \<notin> set (attachment_modes (modes host_fresh))"
    by (simp add: vol_unknown_def host_fresh_def attachment_modes_def nomad_structs_def)
  have path: "stagingDirForVolume (vm (state_of plugin_ok True)) vol_unknown = vol_1_path"
    by (simp add: staging_path_vol_1 state_of_def newVolumeManager_def vol_unknown_def)
  have t: "trace (state_of plugin_ok True) = []"
    by (simp add: state_of_def)
  have mk: "mkdir_passes host_fresh [] vol_1_path"
    by (simp add: mkdir_passes_def host_fresh_def)
  have pr: "IsNotAMountPoint host_fresh [MkdirAll_call vol_1_path 448] vol_1_path = (True, None)"
    by (simp add: host_fresh_def)
  from stageVolume_unknown_attachment_after_probe [OF k, of "state_of plugin_ok True"]
    mk pr path t
  have "stageVolume host_fresh vol_unknown (state_of plugin_ok True)
       = (Some (GoError ''Unknown volume attachment mode: unknown'' False),
          probed plugin_ok True)"
    and "filter is_NodeStageVolume_call
        (trace (snd (stageVolume host_fresh vol_unknown (state_of plugin_ok True)))) = []"
    by (simp_all add: vol_unknown_def Errorf_def probed_def state_of_def)
  with k mk pr show ?thesis
    by (intro conjI)
qed

subsection \<open>The staging path\<close>

text \<open>
  C5 at a failing input. Two usages of \<^verbatim>\<open>vol-1\<close> that differ in attachment mode
  and in access mode get the same staging path: its last element is the fixed string
  \<^verbatim>\<open>todo-provide-usage-options\<close>, not an encoding of the usage.
\<close>

theorem stagingDirForVolume_ignores_usage:
  "stagingDirForVolume (vm (state_of plugin_ok True)) vol_fs
     = ''/data/csi/staging/vol-1/todo-provide-usage-options''
   \<and> stagingDirForVolume (vm (state_of plugin_ok True)) vol_block
     = ''/data/csi/staging/vol-1/todo-provide-usage-options''
   \<and> ID vol_fs = ID vol_block
   \<and> AttachmentMode vol_fs \<noteq> AttachmentMode vol_block
   \<and> AccessMode vol_fs \<noteq> AccessMode vol_block"
  by (simp add: staging_path_vol_1 state_of_def newVolumeManager_def vol_fs_def vol_block_def
      vol_1_path_def [symmetric])

subsection \<open>The retry policy of the plugin call\<close>

lemma policy_of_stage_CallOptions:
  "policy_of stage_CallOptions =
     \<lparr>perRetryTimeout = 120000000000, maxAttempts = 3,
      backoff = Some (BackoffExponential 100000000)\<rparr>"
  by (simp add: policy_of_def stage_CallOptions_def DefaultMountActionTimeout_def Minute_def
      Millisecond_def)

lemma run_retry_always_transient:
  assumes fails: "\<And>n d. call n d = Some (failure n)"
    and tr: "\<And>n. transient (failure n)"
  shows "run_retry transient call
           \<lparr>perRetryTimeout = t, maxAttempts = 3, backoff = Some (BackoffExponential b)\<rparr>
     = ([Attempt 0 t, Backoff b, Attempt 1 t, Backoff (b * 2), Attempt 2 t], Some (failure 2))"
proof -
  have three: "(3::nat) - 1 = Suc (Suc 0)"
    by simp
  show ?thesis
    unfolding run_retry_def
    by (simp add: three fails tr numeral_2_eq_2)
qed

text \<open>
  C6. When \<^verbatim>\<open>stageVolume\<close> reaches the plugin it passes three options: a
  per-attempt timeout of 2 minutes, a maximum of 3, and exponential backoff from 100
  milliseconds. Under the retry executor modelled from the spec, a plugin whose every attempt
  fails with a transient error makes exactly 3 attempts, each under the 2 minute timeout,
  waits 100 and then 200 milliseconds between them (strictly increasing), and
  \<^verbatim>\<open>stageVolume\<close> returns the error of the third attempt.
\<close>

theorem stageVolume_retry_policy:
  assumes reach: "ensureStagingDir h vol s = ((False, p, None), s1)"
    and at: "accessType_switch (modes h) vol = Inr accessType"
    and am: "accessMode_switch (modes h) vol = Inr accessMode"
    and pl: "plugin (vm s) = retrying_plugin transient attempt"
    and fails: "\<And>n d. attempt (trace s1) (ID vol) p
        \<lparr>AccessType = accessType, WireAccessMode = accessMode,
         MountOptions = EmptyVolumeMountOptions\<rparr> n d = Some (failure n)"
    and tr: "\<And>n. transient (failure n)"
  shows "stageVolume h vol s =
           (Some (failure 2),
            s1\<lparr>trace := trace s1 @ [NodeStageVolume_call (ID vol) None p
               \<lparr>AccessType = accessType, WireAccessMode = accessMode,
                MountOptions = EmptyVolumeMountOptions\<rparr>
               [WithPerRetryTimeout (2 * Minute), WithMax 3,
                WithBackoff (BackoffExponential (100 * Millisecond))]]\<rparr>)
       \<and> policy_of stage_CallOptions =
           \<lparr>perRetryTimeout = 120000000000, maxAttempts = 3,
            backoff = Some (BackoffExponential 100000000)\<rparr>
       \<and> run_retry transient
            (attempt (trace s1) (ID vol) p
               \<lparr>AccessType = accessType, WireAccessMode = accessMode,
                MountOptions = EmptyVolumeMountOptions\<rparr>)
            (policy_of stage_CallOptions)
           = ([Attempt 0 120000000000, Backoff 100000000,
               Attempt 1 120000000000, Backoff 200000000,
               Attempt 2 120000000000], Some (failure 2))
       \<and> attempts_made (fst (run_retry transient
            (attempt (trace s1) (ID vol) p
               \<lparr>AccessType = accessType, WireAccessMode = accessMode,
                MountOptions = EmptyVolumeMountOptions\<rparr>)
            (policy_of stage_CallOptions))) = 3
       \<and> sorted_wrt (<) (backoff_delays (fst (run_retry transient
            (attempt (trace s1) (ID vol) p
               \<lparr>AccessType = accessType, WireAccessMode = accessMode,
                MountOptions = EmptyVolumeMountOptions\<rparr>)
            (policy_of stage_CallOptions))))"
proof -
  let ?cap = "\<lparr>AccessType = accessType, WireAccessMode = accessMode,
                MountOptions = EmptyVolumeMountOptions\<rparr>"
  from reach ensureStagingDir_vm [of h vol s] have v: "vm s1 = vm s"
    by simp
  have run: "run_retry transient (attempt (trace s1) (ID vol) p ?cap)
            (policy_of stage_CallOptions)
           = ([Attempt 0 120000000000, Backoff 100000000,
               Attempt 1 120000000000, Backoff 200000000,
               Attempt 2 120000000000], Some (failure 2))"
    using run_retry_always_transient
      [of "attempt (trace s1) (ID vol) p ?cap" failure transient 120000000000 100000000]
      fails tr
    by (simp add: policy_of_stage_CallOptions)
  have "NodeStageVolume (plugin (vm s1)) (trace s1) (ID vol) None p ?cap stage_CallOptions
      = Some (failure 2)"
    by (simp add: v pl retrying_plugin_def run)
  with stageVolume_plugin_call [OF reach at am]
  have "stageVolume h vol s =
           (Some (failure 2),
            s1\<lparr>trace := trace s1 @ [NodeStageVolume_call (ID vol) None p ?cap
               [WithPerRetryTimeout (2 * Minute), WithMax 3,
                WithBackoff (BackoffExponential (100 * Millisecond))]]\<rparr>)"
    by (simp add: stage_CallOptions_def DefaultMountActionTimeout_def)
  moreover have "attempts_made (fst (run_retry transient
            (attempt (trace s1) (ID vol) p ?cap) (policy_of stage_CallOptions))) = 3"
    unfolding run by simp
  moreover have "sorted_wrt (<) (backoff_delays (fst (run_retry transient
            (attempt (trace s1) (ID vol) p ?cap) (policy_of stage_CallOptions))))"
    unfolding run by simp
  ultimately show ?thesis
    using run policy_of_stage_CallOptions by (intro conjI)
qed

text \<open>
  The theorem of C6 for a plugin that is unavailable at every attempt.
\<close>

theorem stageVolume_retry_policy_witness:
  "ensureStagingDir host_fresh vol_fs (state_of plugin_unavailable True)
     = ((False, vol_1_path, None), probed plugin_unavailable True)
   \<and> is_unavailable unavailable
   \<and> stageVolume host_fresh vol_fs (state_of plugin_unavailable True)
       = (Some unavailable, staged plugin_unavailable True)
   \<and> run_retry is_unavailable (\<lambda>n d. Some unavailable) (policy_of stage_CallOptions)
       = ([Attempt 0 120000000000, Backoff 100000000,
           Attempt 1 120000000000, Backoff 200000000,
           Attempt 2 120000000000], Some unavailable)"
proof -
  have r: "ensureStagingDir host_fresh vol_fs (state_of plugin_unavailable True)
     = ((False, vol_1_path, None), probed plugin_unavailable True)"
    by (simp add: ensureStagingDir_host_fresh vol_fs_def)
  have m: "modes host_fresh = nomad_structs"
    by (simp add: host_fresh_def)
  have pl: "plugin (vm (state_of plugin_unavailable True))
      = retrying_plugin is_unavailable (\<lambda>tr i p c n d. Some unavailable)"
    by (simp add: state_of_def newVolumeManager_def plugin_unavailable_def)
  have u: "is_unavailable unavailable"
    by (simp add: is_unavailable_def)
  have at: "accessType_switch (modes host_fresh) vol_fs = Inr VolumeAccessTypeMount"
    and am: "accessMode_switch (modes host_fresh) vol_fs = Inr VolumeAccessModeSingleNodeWriter"
    by (simp_all add: m switch_vol_fs)
  note inst = stageVolume_retry_policy
    [of host_fresh vol_fs "state_of plugin_unavailable True" vol_1_path
        "probed plugin_unavailable True" VolumeAccessTypeMount VolumeAccessModeSingleNodeWriter
        is_unavailable "\<lambda>tr i p c n d. Some unavailable" "\<lambda>n. unavailable",
     OF r at am pl refl u]
  from inst [THEN conjunct1]
  have first: "stageVolume host_fresh vol_fs (state_of plugin_unavailable True)
       = (Some unavailable, staged plugin_unavailable True)"
    by (simp add: staged_def probed_def stage_call_fs_def stage_CallOptions_def
        DefaultMountActionTimeout_def vol_fs_def)
  from inst [THEN conjunct2, THEN conjunct2, THEN conjunct1]
  have second: "run_retry is_unavailable (\<lambda>n d. Some unavailable) (policy_of stage_CallOptions)
       = ([Attempt 0 120000000000, Backoff 100000000,
           Attempt 1 120000000000, Backoff 200000000,
           Attempt 2 120000000000], Some unavailable)" .
  from r u first second show ?thesis
    by (intro conjI)
qed

subsection \<open>A failing mount-point probe\<close>

text \<open>
  C7. When the probe is reached and returns an error, \<^verbatim>\<open>stageVolume\<close> returns
  the error "mount point detection failed for volume (ID): cause", which carries the volume
  ID; the trace gains the directory creation and one probe, so the probe is not retried and
  the plugin is not called.
\<close>

theorem stageVolume_probe_error:
  assumes "mkdir_passes h (trace s) (stagingDirForVolume (vm s) vol)"
    and "IsNotAMountPoint h (trace s @ [MkdirAll_call (stagingDirForVolume (vm s) vol) 448])
           (stagingDirForVolume (vm s) vol) = (isNotMount, Some err)"
  shows "stageVolume h vol s =
           (Some (Errorf (''mount point detection failed for volume ('' @ ID vol @ ''): ''
                           @ Error err)),
            s\<lparr>trace := trace s @ [MkdirAll_call (stagingDirForVolume (vm s) vol) 448,
                                  IsNotAMountPoint_call (stagingDirForVolume (vm s) vol)]\<rparr>)"
proof -
  from ensureStagingDir_probe [OF assms]
  have "ensureStagingDir h vol s =
      ((False, [], Some (Errorf (''mount point detection failed for volume ('' @ ID vol
                                   @ ''): '' @ Error err))),
       s\<lparr>trace := trace s @ [MkdirAll_call (stagingDirForVolume (vm s) vol) 448,
                              IsNotAMountPoint_call (stagingDirForVolume (vm s) vol)]\<rparr>)"
    by simp
  then show ?thesis
    by (rule stageVolume_ensure_error)
qed

text \<open>
  The theorem of C7 on a host whose mount table cannot be read.
\<close>

theorem stageVolume_probe_error_witness:
  "mkdir_passes host_probe_fails [] vol_1_path
   \<and> IsNotAMountPoint host_probe_fails [MkdirAll_call vol_1_path 448] vol_1_path
       = (False, Some (GoError ''input/output error'' False))
   \<and> stageVolume host_probe_fails vol_fs (state_of plugin_ok True)
       = (Some (GoError
            ''mount point detection failed for volume (vol-1): input/output error'' False),
          probed plugin_ok True)"
proof -
  have path: "stagingDirForVolume (vm (state_of plugin_ok True)) vol_fs = vol_1_path"
    by (simp add: staging_path_vol_1 state_of_def newVolumeManager_def vol_fs_def)
  have t: "trace (state_of plugin_ok True) = []"
    by (simp add: state_of_def)
  have mk: "mkdir_passes host_probe_fails [] vol_1_path"
    by (simp add: mkdir_passes_def host_probe_fails_def)
  have pr: "IsNotAMountPoint host_probe_fails [MkdirAll_call vol_1_path 448] vol_1_path
       = (False, Some (GoError ''input/output error'' False))"
    by (simp add: host_probe_fails_def)
  from stageVolume_probe_error
    [of host_probe_fails "state_of plugin_ok True" vol_fs False "GoError ''input/output error'' False"]
    mk pr path t
  have "stageVolume host_probe_fails vol_fs (state_of plugin_ok True)
       = (Some (GoError
            ''mount point detection failed for volume (vol-1): input/output error'' False),
          probed plugin_ok True)"
    by (simp add: vol_fs_def Errorf_def probed_def state_of_def)
  with mk pr show ?thesis
    by (intro conjI)
qed

subsection \<open>Creating the staging directory\<close>

text \<open>
  C8. When \<^verbatim>\<open>os.MkdirAll\<close> returns an error of which \<^verbatim>\<open>os.IsExist\<close>
  holds, \<^verbatim>\<open>ensureStagingDir\<close> behaves as if the directory had been created: its
  result is the one on a host whose \<^verbatim>\<open>os.MkdirAll\<close> returns nil, and the probe is
  called. When it returns any other error, \<^verbatim>\<open>stageVolume\<close> returns the error
  "failed to create staging directory for volume (ID): cause" after the one directory
  creation: no probe, no plugin call.
\<close>

theorem ensureStagingDir_mkdir_outcomes:
  "(os_MkdirAll h (trace s) (stagingDirForVolume (vm s) vol) 448 = Some err \<and> os_IsExist err
      \<longrightarrow> ensureStagingDir h vol s
            = ensureStagingDir (h\<lparr>os_MkdirAll := (\<lambda>tr path perm. None)\<rparr>) vol s
          \<and> trace (snd (ensureStagingDir h vol s))
            = trace s @ [MkdirAll_call (stagingDirForVolume (vm s) vol) 448,
                         IsNotAMountPoint_call (stagingDirForVolume (vm s) vol)])
   \<and> (os_MkdirAll h (trace s) (stagingDirForVolume (vm s) vol) 448 = Some err \<and> \<not> os_IsExist err
      \<longrightarrow> stageVolume h vol s
            = (Some (Errorf (''failed to create staging directory for volume ('' @ ID vol
                              @ ''): '' @ Error err)),
               s\<lparr>trace := trace s @ [MkdirAll_call (stagingDirForVolume (vm s) vol) 448]\<rparr>))"
proof (intro conjI impI)
  assume a: "os_MkdirAll h (trace s) (stagingDirForVolume (vm s) vol) 448 = Some err
    \<and> os_IsExist err"
  obtain isNotMount probeErr
    where p: "IsNotAMountPoint h (trace s @ [MkdirAll_call (stagingDirForVolume (vm s) vol) 448])
           (stagingDirForVolume (vm s) vol) = (isNotMount, probeErr)"
    by (metis prod.exhaust)
  from a have mk: "mkdir_passes h (trace s) (stagingDirForVolume (vm s) vol)"
    by (simp add: mkdir_passes_def)
  have mk': "mkdir_passes (h\<lparr>os_MkdirAll := (\<lambda>tr path perm. None)\<rparr>) (trace s)
      (stagingDirForVolume (vm s) vol)"
    by (simp add: mkdir_passes_def)
  from p have p': "IsNotAMountPoint (h\<lparr>os_MkdirAll := (\<lambda>tr path perm. None)\<rparr>)
           (trace s @ [MkdirAll_call (stagingDirForVolume (vm s) vol) 448])
           (stagingDirForVolume (vm s) vol) = (isNotMount, probeErr)"
    by simp
  from ensureStagingDir_probe [OF mk p] ensureStagingDir_probe [OF mk' p']
  show "ensureStagingDir h vol s
            = ensureStagingDir (h\<lparr>os_MkdirAll := (\<lambda>tr path perm. None)\<rparr>) vol s"
    by (simp only:)
  from ensureStagingDir_probe [OF mk p]
  show "trace (snd (ensureStagingDir h vol s))
            = trace s @ [MkdirAll_call (stagingDirForVolume (vm s) vol) 448,
                         IsNotAMountPoint_call (stagingDirForVolume (vm s) vol)]"
    by simp
next
  assume a: "os_MkdirAll h (trace s) (stagingDirForVolume (vm s) vol) 448 = Some err
    \<and> \<not> os_IsExist err"
  then have "ensureStagingDir h vol s =
    ((False, [], Some (Errorf (''failed to create staging directory for volume (''
        @ ID vol @ ''): '' @ Error err))),
     s\<lparr>trace := trace s @ [MkdirAll_call (stagingDirForVolume (vm s) vol) 448]\<rparr>)"
    by (intro ensureStagingDir_mkdir_fails) simp_all
  then show "stageVolume h vol s
            = (Some (Errorf (''failed to create staging directory for volume ('' @ ID vol
                              @ ''): '' @ Error err)),
               s\<lparr>trace := trace s @ [MkdirAll_call (stagingDirForVolume (vm s) vol) 448]\<rparr>)"
    by (rule stageVolume_ensure_error)
qed

text \<open>
  The theorem of C8 on a host where the directory exists and on one where creating it is
  denied.
\<close>

theorem ensureStagingDir_mkdir_outcomes_witness:
  "os_MkdirAll host_mounted [] vol_1_path 448 = Some (GoError ''file exists'' True)
   \<and> os_IsExist (GoError ''file exists'' True)
   \<and> ensureStagingDir host_mounted vol_fs (state_of plugin_ok True)
       = ensureStagingDir (host_mounted\<lparr>os_MkdirAll := (\<lambda>tr path perm. None)\<rparr>) vol_fs
           (state_of plugin_ok True)
   \<and> trace (snd (ensureStagingDir host_mounted vol_fs (state_of plugin_ok True)))
       = [MkdirAll_call vol_1_path 448, IsNotAMountPoint_call vol_1_path]
   \<and> os_MkdirAll host_denied [] vol_1_path 448 = Some (GoError ''permission denied'' False)
   \<and> \<not> os_IsExist (GoError ''permission denied'' False)
   \<and> stageVolume host_denied vol_fs (state_of plugin_ok True)
       = (Some (GoError
            ''failed to create staging directory for volume (vol-1): permission denied'' False),
          \<lparr>vm = newVolumeManager plugin_ok ''/data/csi'' True,
           trace = [MkdirAll_call vol_1_path 448]\<rparr>)"
proof -
  have path: "stagingDirForVolume (vm (state_of plugin_ok True)) vol_fs = vol_1_path"
    by (simp add: staging_path_vol_1 state_of_def newVolumeManager_def vol_fs_def)
  have t: "trace (state_of plugin_ok True) = []"
    by (simp add: state_of_def)
  have e: "os_MkdirAll host_mounted [] vol_1_path 448 = Some (GoError ''file exists'' True)"
    "os_IsExist (GoError ''file exists'' True)"
    by (simp_all add: host_mounted_def)
  have d: "os_MkdirAll host_denied [] vol_1_path 448 = Some (GoError ''permission denied'' False)"
    "\<not> os_IsExist (GoError ''permission denied'' False)"
    by (simp_all add: host_denied_def)
  have i: "os_MkdirAll host_mounted (trace (state_of plugin_ok True))
        (stagingDirForVolume (vm (state_of plugin_ok True)) vol_fs) 448
      = Some (GoError ''file exists'' True) \<and> os_IsExist (GoError ''file exists'' True)"
    using e path t by simp
  note both = ensureStagingDir_mkdir_outcomes
    [of host_mounted "state_of plugin_ok True" vol_fs "GoError ''file exists'' True",
     THEN conjunct1, THEN mp, OF i]
  from both have x1: "ensureStagingDir host_mounted vol_fs (state_of plugin_ok True)
       = ensureStagingDir (host_mounted\<lparr>os_MkdirAll := (\<lambda>tr path perm. None)\<rparr>) vol_fs
           (state_of plugin_ok True)"
    by (rule conjunct1)
  from both [THEN conjunct2] path t
  have x2: "trace (snd (ensureStagingDir host_mounted vol_fs (state_of plugin_ok True)))
       = [MkdirAll_call vol_1_path 448, IsNotAMountPoint_call vol_1_path]"
    by simp
  from ensureStagingDir_mkdir_outcomes
    [of host_denied "state_of plugin_ok True" vol_fs "GoError ''permission denied'' False"] d path t
  have y: "stageVolume host_denied vol_fs (state_of plugin_ok True)
       = (Some (GoError
            ''failed to create staging directory for volume (vol-1): permission denied'' False),
          \<lparr>vm = newVolumeManager plugin_ok ''/data/csi'' True,
           trace = [MkdirAll_call vol_1_path 448]\<rparr>)"
    by (simp add: vol_fs_def Errorf_def state_of_def)
  from e x1 x2 d y show ?thesis
    by (intro conjI)
qed

subsection \<open>MountVolume and UnmountVolume\<close>

text \<open>
  C9. \<^verbatim>\<open>MountVolume\<close> always returns a nil \<^verbatim>\<open>MountInfo\<close> and a non-nil
  error: the error of \<^verbatim>\<open>stageVolume\<close> when staging is required and fails, and
  "Unimplemented" otherwise, also after a successful staging. \<^verbatim>\<open>UnmountVolume\<close>
  always returns "Unimplemented".
\<close>

theorem MountVolume_never_yields_MountInfo:
  "fst (fst (MountVolume h vol alloc s)) = None
   \<and> snd (fst (MountVolume h vol alloc s)) \<noteq> None
   \<and> snd (fst (MountVolume h vol alloc s)) =
       (if requiresStaging (vm s) \<and> fst (stageVolume h vol s) \<noteq> None
        then fst (stageVolume h vol s) else Some (Errorf ''Unimplemented''))
   \<and> fst (UnmountVolume h vol alloc s) = Some (Errorf ''Unimplemented'')"
  by (cases "stageVolume h vol s"; cases "fst (stageVolume h vol s)")
     (simp_all add: MountVolume_def UnmountVolume_def)

text \<open>
  The theorem of C9 after a successful staging, after a failed one, and for
  \<^verbatim>\<open>UnmountVolume\<close>.
\<close>

theorem MountVolume_never_yields_MountInfo_witness:
  "MountVolume host_fresh vol_fs () (state_of plugin_ok True)
     = ((None, Some (GoError ''Unimplemented'' False)), staged plugin_ok True)
   \<and> fst (fst (MountVolume host_denied vol_fs () (state_of plugin_ok True))) = None
   \<and> snd (fst (MountVolume host_denied vol_fs () (state_of plugin_ok True)))
       = Some (GoError
           ''failed to create staging directory for volume (vol-1): permission denied'' False)
   \<and> fst (UnmountVolume host_fresh vol_fs () (staged plugin_ok True))
       = Some (GoError ''Unimplemented'' False)"
proof -
  have m: "modes host_fresh = nomad_structs"
    by (simp add: host_fresh_def)
  have r: "ensureStagingDir host_fresh vol_fs (state_of plugin_ok True)
      = ((False, vol_1_path, None), probed plugin_ok True)"
    by (simp add: ensureStagingDir_host_fresh vol_fs_def)
  from stageVolume_vol_fs [OF m r]
  have ok: "stageVolume host_fresh vol_fs (state_of plugin_ok True) = (None, staged plugin_ok True)"
    by (simp add: plugin_ok_def)
  have q: "requiresStaging (vm (state_of plugin_ok True))"
    by (simp add: state_of_def newVolumeManager_def)
  have path: "stagingDirForVolume (vm (state_of plugin_ok True)) vol_fs = vol_1_path"
    by (simp add: staging_path_vol_1 state_of_def newVolumeManager_def vol_fs_def)
  have ed: "ensureStagingDir host_denied vol_fs (state_of plugin_ok True) =
    ((False, [], Some (Errorf (''failed to create staging directory for volume (''
        @ ID vol_fs @ ''): '' @ Error (GoError ''permission denied'' False)))),
     (state_of plugin_ok True)\<lparr>trace := trace (state_of plugin_ok True)
        @ [MkdirAll_call (stagingDirForVolume (vm (state_of plugin_ok True)) vol_fs) 448]\<rparr>)"
    by (intro ensureStagingDir_mkdir_fails) (simp_all add: host_denied_def)
  from stageVolume_ensure_error [OF ed]
  have denied: "fst (stageVolume host_denied vol_fs (state_of plugin_ok True))
      = Some (GoError
           ''failed to create staging directory for volume (vol-1): permission denied'' False)"
    by (simp add: vol_fs_def Errorf_def)
  have first: "MountVolume host_fresh vol_fs () (state_of plugin_ok True)
     = ((None, Some (GoError ''Unimplemented'' False)), staged plugin_ok True)"
    by (simp add: MountVolume_def q ok Errorf_def)
  from MountVolume_never_yields_MountInfo
    [of host_denied vol_fs "()" "state_of plugin_ok True"] q denied
  have second: "fst (fst (MountVolume host_denied vol_fs () (state_of plugin_ok True))) = None"
    and third: "snd (fst (MountVolume host_denied vol_fs () (state_of plugin_ok True)))
       = Some (GoError
           ''failed to create staging directory for volume (vol-1): permission denied'' False)"
    by simp_all
  from MountVolume_never_yields_MountInfo
    [of host_fresh vol_fs "()" "staged plugin_ok True"]
  have fourth: "fst (UnmountVolume host_fresh vol_fs () (staged plugin_ok True))
       = Some (GoError ''Unimplemented'' False)"
    by (simp add: Errorf_def)
  from first second third fourth show ?thesis
    by (intro conjI)
qed

text \<open>
  C10. When \<^verbatim>\<open>requiresStaging\<close> is false, \<^verbatim>\<open>MountVolume\<close> returns the
  nil \<^verbatim>\<open>MountInfo\<close> and "Unimplemented" and leaves the state as it was: the manager
  is unchanged and the trace gains no call, so no directory is created, no path probed and
  the plugin not called.
\<close>

theorem MountVolume_without_staging:
  assumes "\<not> requiresStaging (vm s)"
  shows "MountVolume h vol alloc s = ((None, Some (Errorf ''Unimplemented'')), s)"
  using assms by (simp add: MountVolume_def)

text \<open>
  The theorem of C10 on a manager that does not require staging.
\<close>

theorem MountVolume_without_staging_witness:
  "\<not> requiresStaging (vm (state_of plugin_ok False))
   \<and> MountVolume host_fresh vol_fs () (state_of plugin_ok False)
      = ((None, Some (GoError ''Unimplemented'' False)),
         \<lparr>vm = newVolumeManager plugin_ok ''/data/csi'' False, trace = []\<rparr>)"
proof -
  have h: "\<not> requiresStaging (vm (state_of plugin_ok False))"
    by (simp add: state_of_def newVolumeManager_def)
  from MountVolume_without_staging [OF h, of host_fresh vol_fs "()"] h show ?thesis
    by (simp add: state_of_def Errorf_def)
qed

end
